theory Spec2Isabelle
  imports Complex_Main "HOL-Library.Sublist"
begin

section \<open>Data model\<close>

text \<open>
  The program is \<^verbatim>\<open>app.js\<close>: it reads \<^verbatim>\<open>documents/transactions.csv\<close>, splits the text
  into chunks, embeds the chunks into an in-memory vector store, wraps a similarity search
  as the tool \<^verbatim>\<open>TransactionRetriever\<close>, and runs a read-eval-print loop that hands every
  line other than the exit keyword to an agent executor.

  The errors are those of the specification (section 7), and the error
  \<^verbatim>\<open>ERR_USE_AFTER_CLOSE\<close> that \<^verbatim>\<open>rl.question\<close> throws on a closed interface.
\<close>

datatype error =
  ConfigError | IOError | EmbeddingServiceError | ModelServiceError | UseAfterClose

text \<open>A LangChain \<^verbatim>\<open>Document\<close>; the program reads its \<^verbatim>\<open>pageContent\<close> only.\<close>

datatype document = Document (pageContent: string)

text \<open>
  An embedding and a similarity score. The service computes them in floating point; the
  model keeps them exact, and takes the embedding and the metric as parameters.
\<close>

type_synonym vector = "rat list"

text \<open>
  The answer of the chat model to one request: the final text, or the request to call a
  named tool with an argument string.
\<close>

datatype model_response = FinalAnswer string | ToolRequest string string

text \<open>What one turn of the agent executor yields: the states \<open>Done\<close> and \<open>Aborted\<close> of section 4.5.\<close>

datatype agent_result = Done string | Aborted

text \<open>What \<^verbatim>\<open>console.log\<close> prints.\<close>

datatype message = Banner | Goodbye | SpendingSummary | Output string

text \<open>
  Every interaction of the process with its surroundings, in the order it happens:
  the file read, the two calls of the embedding service, the search on the vector store,
  the call of the chat model, the prompt \<^verbatim>\<open>rl.question\<close> and \<^verbatim>\<open>console.log\<close>.
\<close>

datatype event =
    ReadFile string
  | EmbedDocuments "string list"
  | SimilaritySearch string nat
  | EmbedQuery string
  | ModelCall string "(string \<times> (error + string)) list"
  | AskQuestion string
  | ConsoleLog message

text \<open>
  The surroundings of one run: the file system, the environment variable holding the
  credential, the embedding service with its similarity metric, and the chat model, which
  sees the user input and the scratchpad of the turn so far: every tool call made, with
  its argument and its result. A call that fails yields \<open>None\<close>.
\<close>

record env =
  fileContent :: "string \<Rightarrow> string option"
  OPENAI_API_KEY :: "string option"
  embedDocuments :: "string list \<Rightarrow> vector list option"
  embedQuery :: "string \<Rightarrow> vector option"
  similarity :: "vector \<Rightarrow> vector \<Rightarrow> rat"
  chatModel :: "string \<Rightarrow> (string \<times> (error + string)) list \<Rightarrow> model_response option"

text \<open>
  The mutable state of the process: the content of the \<^verbatim>\<open>MemoryVectorStore\<close> (every chunk
  with its embedding) and the trace of events so far.
\<close>

record process_state =
  memoryVectors :: "(document \<times> vector) list"
  trace :: "event list"

definition initial_state :: process_state where
  "initial_state = \<lparr>memoryVectors = [], trace = []\<rparr>"

definition log :: "event \<Rightarrow> process_state \<Rightarrow> process_state" where
  "log e s = s\<lparr>trace := trace s @ [e]\<rparr>"

definition is_network :: "event \<Rightarrow> bool" where
  "is_network e = (case e of EmbedDocuments _ \<Rightarrow> True | EmbedQuery _ \<Rightarrow> True
                   | ModelCall _ _ \<Rightarrow> True | _ \<Rightarrow> False)"

definition is_startup :: "event \<Rightarrow> bool" where
  "is_startup e = (case e of ReadFile _ \<Rightarrow> True | EmbedDocuments _ \<Rightarrow> True | _ \<Rightarrow> False)"

definition is_prompt :: "event \<Rightarrow> bool" where
  "is_prompt e = (case e of AskQuestion _ \<Rightarrow> True | _ \<Rightarrow> False)"

definition is_model_call :: "event \<Rightarrow> bool" where
  "is_model_call e = (case e of ModelCall _ _ \<Rightarrow> True | _ \<Rightarrow> False)"

definition is_search :: "event \<Rightarrow> bool" where
  "is_search e = (case e of SimilaritySearch _ _ \<Rightarrow> True | _ \<Rightarrow> False)"

section \<open>Chunk splitter\<close>

text \<open>
  Modelled from the spec: the splitter \<^verbatim>\<open>RecursiveCharacterTextSplitter\<close> is a class of the
  package \<^verbatim>\<open>langchain/text_splitter\<close>; its code is not part of \<^verbatim>\<open>app.js\<close>. Section 4.2 gives
  its contract, \<^verbatim>\<open>split(text, chunkSize, overlap)\<close>: overlapping fixed-size segments in
  order of appearance, and an overlap that is not below the chunk size is a
  configuration error. \<open>chunks\<close> cuts a window of \<open>chunkSize\<close> characters and moves it
  on by \<open>chunkSize - overlap\<close>, until the rest of the text fits into one window.
\<close>

function chunks :: "string \<Rightarrow> nat \<Rightarrow> nat \<Rightarrow> string list" where
  "chunks text chunkSize overlap =
     (if chunkSize \<le> overlap then []
      else if text = [] then []
      else if length text \<le> chunkSize then [text]
      else take chunkSize text # chunks (drop (chunkSize - overlap) text) chunkSize overlap)"
  by pat_completeness auto
termination
  by (relation "measure (\<lambda>(text, chunkSize, overlap). length text)") auto

definition splitText :: "string \<Rightarrow> nat \<Rightarrow> nat \<Rightarrow> error + string list" where
  "splitText text chunkSize overlap =
     (if chunkSize \<le> overlap then Inl ConfigError else Inr (chunks text chunkSize overlap))"

text \<open>
  Modelled from the spec: rejoining the chunks while deduplicating the overlapping spans
  (section 8): the first chunk whole, every later chunk without its first \<open>overlap\<close>
  characters, which repeat the end of the chunk before it.
\<close>

fun rejoin :: "nat \<Rightarrow> string list \<Rightarrow> string" where
  "rejoin overlap [] = []"
| "rejoin overlap (c # cs) = c @ concat (map (drop overlap) cs)"

section \<open>Document loader\<close>

text \<open>
  \<^verbatim>\<open>loadTransactionChunks\<close> (lines 16 to 24): reads the file, a failed read rejects; the
  splitter is constructed with \<^verbatim>\<open>chunkSize: 1000\<close> and \<^verbatim>\<open>chunkOverlap: 100\<close>.
\<close>

definition chunkSize :: nat where
  "chunkSize = 1000"

definition chunkOverlap :: nat where
  "chunkOverlap = 100"

definition loadTransactionChunks :: "env \<Rightarrow> process_state \<Rightarrow> (error + document list) \<times> process_state" where
  "loadTransactionChunks e s =
     (let s1 = log (ReadFile ''documents/transactions.csv'') s in
      case fileContent e ''documents/transactions.csv'' of
        None \<Rightarrow> (Inl IOError, s1)
      | Some content \<Rightarrow>
          (case splitText content chunkSize chunkOverlap of
             Inl err \<Rightarrow> (Inl err, s1)
           | Inr cs \<Rightarrow> (Inr (map Document cs), s1)))"

section \<open>Embedding index\<close>

text \<open>
  \<^verbatim>\<open>createVectorStore\<close> (lines 27 to 31): \<^verbatim>\<open>MemoryVectorStore.fromDocuments\<close> sends the text of
  every chunk to the embedding service and stores each chunk with its vector.
\<close>

definition createVectorStore :: "env \<Rightarrow> document list \<Rightarrow> process_state \<Rightarrow> (error + unit) \<times> process_state" where
  "createVectorStore e documents s =
     (let s1 = log (EmbedDocuments (map pageContent documents)) s in
      case embedDocuments e (map pageContent documents) of
        None \<Rightarrow> (Inl EmbeddingServiceError, s1)
      | Some vectors \<Rightarrow> (Inr (), s1\<lparr>memoryVectors := zip documents vectors\<rparr>))"

text \<open>
  Modelled from the spec: the search of \<^verbatim>\<open>MemoryVectorStore\<close>, a class of the package
  \<^verbatim>\<open>langchain/vectorstores/memory\<close>; its code is not part of \<^verbatim>\<open>app.js\<close>. Section 4.3 gives its
  contract, \<^verbatim>\<open>query(index, text, k)\<close>: the chunks with their scores, most similar first, at
  most \<open>k\<close> of them; a failed embedding call is an \<open>EmbeddingServiceError\<close>. \<open>query_index\<close>
  scores every stored chunk against the embedded query, orders the chunks by falling
  score and keeps the first \<open>k\<close>.
\<close>

definition query_index :: "env \<Rightarrow> (document \<times> vector) list \<Rightarrow> vector \<Rightarrow> nat \<Rightarrow> (document \<times> rat) list" where
  "query_index e mv qv k =
     take k (sort_key (\<lambda>p. - snd p) (map (\<lambda>(d, v). (d, similarity e qv v)) mv))"

definition similaritySearchWithScore ::
  "env \<Rightarrow> string \<Rightarrow> nat \<Rightarrow> process_state \<Rightarrow> (error + (document \<times> rat) list) \<times> process_state" where
  "similaritySearchWithScore e query k s =
     (let s1 = log (EmbedQuery query) (log (SimilaritySearch query k) s) in
      case embedQuery e query of
        None \<Rightarrow> (Inl EmbeddingServiceError, s1)
      | Some qv \<Rightarrow> (Inr (query_index e (memoryVectors s1) qv k), s1))"

definition similaritySearch ::
  "env \<Rightarrow> string \<Rightarrow> nat \<Rightarrow> process_state \<Rightarrow> (error + document list) \<times> process_state" where
  "similaritySearch e query k s =
     (case similaritySearchWithScore e query k s of
        (Inl err, s1) \<Rightarrow> (Inl err, s1)
      | (Inr scored, s1) \<Rightarrow> (Inr (map fst scored), s1))"

section \<open>Retrieval tool\<close>

text \<open>\<^verbatim>\<open>Array.prototype.join\<close>: the elements with the separator between neighbours.\<close>

fun join :: "string \<Rightarrow> string list \<Rightarrow> string" where
  "join sep [] = []"
| "join sep [x] = x"
| "join sep (x # y # ys) = x @ sep @ join sep (y # ys)"

text \<open>The delimiter of line 41: a line feed, three hyphens, a line feed.\<close>

definition delimiter :: string where
  "delimiter = [CHR 0x0A, CHR ''-'', CHR ''-'', CHR ''-'', CHR 0x0A]"

text \<open>
  The \<^verbatim>\<open>func\<close> of the tool made by \<^verbatim>\<open>createTransactionRetrieverTool\<close> (lines 39 to 42):
  \<^verbatim>\<open>similaritySearch(input, 5)\<close>, then the page contents joined.
\<close>

definition func :: "env \<Rightarrow> string \<Rightarrow> process_state \<Rightarrow> (error + string) \<times> process_state" where
  "func e input s =
     (case similaritySearch e input 5 s of
        (Inl err, s1) \<Rightarrow> (Inl err, s1)
      | (Inr results, s1) \<Rightarrow> (Inr (join delimiter (map pageContent results)), s1))"

section \<open>Agent orchestrator\<close>

text \<open>The ceiling given to the executor at line 79, \<^verbatim>\<open>maxIterations: 10\<close>.\<close>

definition maxIterations :: nat where
  "maxIterations = 10"

text \<open>
  Modelled from the spec: \<^verbatim>\<open>AgentExecutor\<close> is a class of the package \<^verbatim>\<open>langchain/agents\<close>;
  its code is not part of \<^verbatim>\<open>app.js\<close>, which only constructs it (lines 75 to 80) and calls
  \<^verbatim>\<open>invoke\<close> (line 102). Section 4.5 gives its state machine for one turn. \<open>Decide\<close>: the
  model is sent the user input and the context so far; a direct answer ends the turn in
  \<open>Done\<close>, a tool request goes to \<open>ToolExec\<close>, which invokes the retrieval tool, appends
  its result to the context and returns to \<open>Decide\<close>. The result of the tool is the
  joined text, or the error it failed with: \<open>ToolExec\<close> has no other transition than the
  one back to \<open>Decide\<close>, and of the failures section 4.5 makes the model-call failure
  fatal to the turn, no other. When the iteration count has reached the ceiling before
  \<open>Done\<close>, the turn ends in \<open>Aborted\<close>. The second component of the result is the
  number of iterations begun.
\<close>

function executor_loop ::
  "env \<Rightarrow> string \<Rightarrow> nat \<Rightarrow> (string \<times> (error + string)) list \<Rightarrow> process_state
     \<Rightarrow> (error + agent_result) \<times> nat \<times> process_state" where
  "executor_loop e input iterations scratchpad s =
     (if maxIterations \<le> iterations then (Inr Aborted, iterations, s)
      else
        (let s1 = log (ModelCall input scratchpad) s in
         case chatModel e input scratchpad of
           None \<Rightarrow> (Inl ModelServiceError, Suc iterations, s1)
         | Some (FinalAnswer answer) \<Rightarrow> (Inr (Done answer), Suc iterations, s1)
         | Some (ToolRequest name arg) \<Rightarrow>
             (case func e arg s1 of
                (observation, s2) \<Rightarrow>
                  executor_loop e input (Suc iterations) (scratchpad @ [(arg, observation)]) s2)))"
  by pat_completeness auto
termination
  by (relation "measure (\<lambda>(e, input, iterations, scratchpad, s). maxIterations - iterations)") auto

definition executor_invoke ::
  "env \<Rightarrow> string \<Rightarrow> process_state \<Rightarrow> (error + agent_result) \<times> nat \<times> process_state" where
  "executor_invoke e input s = executor_loop e input 0 [] s"

text \<open>
  The events that the step from one state to a later one has added, and the test whether
  an event is a model call that failed.
\<close>

definition events_since :: "process_state \<Rightarrow> process_state \<Rightarrow> event list" where
  "events_since s s' = drop (length (trace s)) (trace s')"

definition failed_model_call :: "env \<Rightarrow> event \<Rightarrow> bool" where
  "failed_model_call e ev =
     (case ev of ModelCall input scratchpad \<Rightarrow> chatModel e input scratchpad = None | _ \<Rightarrow> False)"

text \<open>The text of \<^verbatim>\<open>result.output\<close>; the executor's text for an aborted turn is its own.\<close>

definition output_text :: "agent_result \<Rightarrow> string" where
  "output_text r = (case r of Done answer \<Rightarrow> answer | Aborted \<Rightarrow> ''Agent stopped due to max iterations.'')"

section \<open>Interactive shell\<close>

text \<open>
  \<^verbatim>\<open>String.prototype.toLowerCase\<close> on the code points below 256, which is what a \<open>char\<close>
  stands for here: the letters A to Z and the Latin-1 capitals (all of 192 to 222 but the
  multiplication sign 215) move up by 32, every other character stays.
\<close>

definition toLowerCase_char :: "char \<Rightarrow> char" where
  "toLowerCase_char c =
     (let n = (of_char c :: nat) in
      if (65 \<le> n \<and> n \<le> 90) \<or> (192 \<le> n \<and> n \<le> 222 \<and> n \<noteq> 215) then char_of (n + 32) else c)"

definition toLowerCase :: "string \<Rightarrow> string" where
  "toLowerCase str = map toLowerCase_char str"

text \<open>
  How a run ends: the \<^verbatim>\<open>break\<close> of line 99, a question left pending for good, or a
  rejection.
\<close>

datatype outcome = ExitCommand | EndOfInput | Crashed error

text \<open>
  What standard input brings in one round of the loop: the line that answers the pending
  question (\<open>typed\<close>); the lines that arrive while the turn for that line runs
  (\<open>unheard\<close>), which \<^verbatim>\<open>readline\<close> emits with no question pending and no listener, so that
  they are lost; and whether standard input ends while the turn runs (\<open>ended\<close>), which
  closes the interface. Input piped in as a whole is one such round: its first line
  answers the first question, the other lines and the end of the input arrive during the
  first turn.
\<close>

datatype turn_input = TurnInput (typed: string) (unheard: "string list") (ended: bool)

text \<open>
  The loop of lines 95 to 105 over the rounds of input. Each round prompts. When no
  further round comes, standard input ends while the question is pending: the question
  is never answered and nothing is left to run. The test of line 97 is on the line as
  read. Nothing catches a rejection of \<^verbatim>\<open>executor.invoke\<close>. After a turn the loop
  prompts again (line 96); when standard input has ended during the turn,
  \<^verbatim>\<open>rl.question\<close> throws on the closed interface before it prints the prompt, inside the
  promise of lines 87 to 91, and nothing catches that rejection either.
\<close>

fun repl :: "env \<Rightarrow> turn_input list \<Rightarrow> process_state \<Rightarrow> outcome \<times> process_state" where
  "repl e [] s = (EndOfInput, log (AskQuestion ''You: '') s)"
| "repl e (r # rest) s =
     (let s1 = log (AskQuestion ''You: '') s; userPrompt = typed r in
      if toLowerCase userPrompt = ''exit'' then (ExitCommand, log (ConsoleLog Goodbye) s1)
      else
        (case executor_invoke e userPrompt s1 of
           (Inl err, n, s2) \<Rightarrow> (Crashed err, s2)
         | (Inr result, n, s2) \<Rightarrow>
             (let s3 = log (ConsoleLog (Output (output_text result @ [CHR 0x0A])))
                         (log (ConsoleLog SpendingSummary) s2)
              in if ended r then (Crashed UseAfterClose, s3) else repl e rest s3)))"

text \<open>
  \<^verbatim>\<open>main\<close> (lines 64 to 108): the chunks, the vector store, the banner, the loop. A
  rejection of either startup step leaves \<^verbatim>\<open>main\<close> before the loop. The tool, the agent,
  the executor and the \<^verbatim>\<open>readline\<close> interface are constructed in between (lines 67 to
  85), without a call to the file system, the services or the console.
\<close>

definition main :: "env \<Rightarrow> turn_input list \<Rightarrow> process_state \<Rightarrow> outcome \<times> process_state" where
  "main e rounds s =
     (case loadTransactionChunks e s of
        (Inl err, s1) \<Rightarrow> (Crashed err, s1)
      | (Inr documents, s1) \<Rightarrow>
          (case createVectorStore e documents s1 of
             (Inl err, s2) \<Rightarrow> (Crashed err, s2)
           | (Inr u, s2) \<Rightarrow> repl e rounds (log (ConsoleLog Banner) s2)))"

text \<open>
  The module as a whole. The chat model is constructed at line 47, before \<^verbatim>\<open>main\<close> is
  called at line 110.

  Modelled from the spec: the constructor \<^verbatim>\<open>ChatOpenAI\<close> belongs to the package
  \<^verbatim>\<open>@langchain/openai\<close>; by section 7 a missing credential is a \<open>ConfigError\<close> at startup,
  fatal before the loop starts.
\<close>

definition process :: "env \<Rightarrow> turn_input list \<Rightarrow> outcome \<times> process_state" where
  "process e rounds =
     (case OPENAI_API_KEY e of
        None \<Rightarrow> (Crashed ConfigError, initial_state)
      | Some key \<Rightarrow> main e rounds initial_state)"

text \<open>
  The exit code Node.js gives the process: 1 for an uncaught exception or an unhandled
  rejection, 0 when nothing is left to run.
\<close>

definition exit_code :: "outcome \<Rightarrow> nat" where
  "exit_code out = (case out of Crashed err \<Rightarrow> 1 | _ \<Rightarrow> 0)"

section \<open>The specification's reading of the shell\<close>

text \<open>
  Section 4.6 of the specification has the line trimmed before the comparison with the
  exit keyword. \<open>spec_trim\<close> removes the white space at both ends, as
  \<^verbatim>\<open>String.prototype.trim\<close> does; \<open>spec_is_exit\<close> is the specification's test, to be
  compared with the test of line 97.
\<close>

definition is_space :: "char \<Rightarrow> bool" where
  "is_space c = (c \<in> set [CHR '' '', CHR 0x09, CHR 0x0A, CHR 0x0B, CHR 0x0C, CHR 0x0D, CHR 0xA0])"

definition spec_trim :: "string \<Rightarrow> string" where
  "spec_trim str = rev (dropWhile is_space (rev (dropWhile is_space str)))"

definition spec_is_exit :: "string \<Rightarrow> bool" where
  "spec_is_exit line = (toLowerCase (spec_trim line) = ''exit'')"

text \<open>A word in any letter case: every character is the keyword's, or its capital.\<close>

definition any_case :: "string \<Rightarrow> string \<Rightarrow> bool" where
  "any_case keyword str =
     list_all2 (\<lambda>k c. c = k \<or> of_char c + 32 = (of_char k :: nat)) keyword str"

section \<open>Sample surroundings\<close>

text \<open>
  A run to evaluate: the file holds the two rows of the scenario of section 8, every
  chunk and every query is embedded as the vector of its length, the metric is the
  negated distance of the first components, and the model is given.
\<close>

definition sample_file :: string where
  "sample_file = ''2024-01-05,Groceries,54.20'' @ [CHR 0x0A] @ ''2024-01-12,Groceries,30.10''"

definition sample_env :: "(string \<Rightarrow> (string \<times> (error + string)) list \<Rightarrow> model_response option) \<Rightarrow> env" where
  "sample_env m =
     \<lparr>fileContent = (\<lambda>path. if path = ''documents/transactions.csv'' then Some sample_file else None),
      OPENAI_API_KEY = Some ''sk-test'',
      embedDocuments = (\<lambda>texts. Some (map (\<lambda>t. [of_nat (length t)]) texts)),
      embedQuery = (\<lambda>q. Some [of_nat (length q)]),
      similarity = (\<lambda>a b. - \<bar>hd a - hd b\<bar>),
      chatModel = m\<rparr>"

text \<open>A state whose vector store holds seven chunks, more than one search returns.\<close>

definition sample_state :: process_state where
  "sample_state =
     \<lparr>memoryVectors =
        [(Document ''a'', [1]), (Document ''bb'', [2]), (Document ''ccc'', [3]),
         (Document ''dddd'', [4]), (Document ''eeeee'', [5]), (Document ''ffffff'', [6]),
         (Document ''ggggggg'', [7])],
      trace = []\<rparr>"

text \<open>
  Four models: one answers directly, one always requests the tool, one fails, one
  requests the tool and fails when called with its result.
\<close>

definition direct_model :: "string \<Rightarrow> (string \<times> (error + string)) list \<Rightarrow> model_response option" where
  "direct_model input scratchpad = Some (FinalAnswer ''ok'')"

definition tool_model :: "string \<Rightarrow> (string \<times> (error + string)) list \<Rightarrow> model_response option" where
  "tool_model input scratchpad = Some (ToolRequest ''TransactionRetriever'' input)"



text \<open>The sample surroundings with an embedding service that fails on every query.\<close>

definition no_query_embedding :: "env \<Rightarrow> env" where
  "no_query_embedding e = e\<lparr>embedQuery := \<lambda>q. None\<rparr>"

text \<open>A line typed at the prompt, with standard input silent and open during its turn.\<close>

definition typed_line :: "string \<Rightarrow> turn_input" where
  "typed_line str = TurnInput str [] False"


section \<open>Facts about the splitter\<close>

declare chunks.simps [simp del]

lemma chunks_fits: "ov < sz \<Longrightarrow> t \<noteq> [] \<Longrightarrow> length t \<le> sz \<Longrightarrow> chunks t sz ov = [t]"
  by (subst chunks.simps) simp

lemma chunks_empty: "chunks [] sz ov = []"
  by (subst chunks.simps) simp

lemma chunks_window: "ov < sz \<Longrightarrow> sz < length t \<Longrightarrow>
  chunks t sz ov = take sz t # chunks (drop (sz - ov) t) sz ov"
  by (subst chunks.simps) auto

lemma chunks_rejoin: "ov < sz \<Longrightarrow> rejoin ov (chunks t sz ov) = t"
proof (induction t sz ov rule: chunks.induct)
  case (1 t sz ov)
  show ?case
  proof (cases "length t \<le> sz")
    case True
    with 1(2) show ?thesis by (cases "t = []") (simp_all add: chunks_fits chunks_empty)
  next
    case False
    define rest where "rest = drop (sz - ov) t"
    from False 1(2) have len: "ov < length rest"
      by (simp add: rest_def)
    then have ne: "rest \<noteq> []" by auto
    from False 1(2) have "t \<noteq> []" by auto
    with False 1 have IH: "rejoin ov (chunks rest sz ov) = rest"
      by (simp add: rest_def)
    obtain c cs where ccs: "chunks rest sz ov = c # cs" and clen: "ov \<le> length c"
    proof (cases "length rest \<le> sz")
      case True
      then show ?thesis using that ne len 1(2) by (simp add: chunks_fits)
    next
      case False
      then show ?thesis using that 1(2) by (simp add: chunks_window)
    qed
    from IH ccs have "c @ concat (map (drop ov) cs) = rest" by simp
    then have "drop ov rest = drop ov c @ concat (map (drop ov) cs)"
      using clen by auto
    moreover have "drop ov rest = drop sz t"
      using 1(2) by (simp add: rest_def)
    ultimately have tail: "drop ov c @ concat (map (drop ov) cs) = drop sz t"
      by simp
    have "chunks t sz ov = take sz t # c # cs"
      using False 1(2) ccs by (simp add: chunks_window rest_def)
    then have "rejoin ov (chunks t sz ov) = take sz t @ drop sz t"
      using tail by simp
    then show ?thesis by simp
  qed
qed

section \<open>Facts about the state and the tool\<close>

declare executor_loop.simps [simp del]

lemma trace_log: "trace (log ev s) = trace s @ [ev]"
  by (simp add: log_def)

lemma memoryVectors_log: "memoryVectors (log ev s) = memoryVectors s"
  by (simp add: log_def)

lemma similaritySearchWithScore_state:
  "snd (similaritySearchWithScore e q k s) = log (EmbedQuery q) (log (SimilaritySearch q k) s)"
  by (simp add: similaritySearchWithScore_def Let_def split: option.splits)

lemma similaritySearch_state:
  "snd (similaritySearch e q k s) = log (EmbedQuery q) (log (SimilaritySearch q k) s)"
  using similaritySearchWithScore_state [of e q k s]
  by (auto simp: similaritySearch_def split: prod.splits sum.splits)

lemma func_state: "snd (func e input s) = log (EmbedQuery input) (log (SimilaritySearch input 5) s)"
  using similaritySearch_state [of e input 5 s]
  by (auto simp: func_def split: prod.splits sum.splits)

lemma func_result:
  "fst (func e input s) =
     (case embedQuery e input of
        None \<Rightarrow> Inl EmbeddingServiceError
      | Some qv \<Rightarrow> Inr (join delimiter (map (pageContent \<circ> fst) (query_index e (memoryVectors s) qv 5))))"
  by (simp add: func_def similaritySearch_def similaritySearchWithScore_def Let_def memoryVectors_log
      split: option.splits)

lemma events_since_self: "events_since s s = []"
  by (simp add: events_since_def)

lemma events_since_log: "events_since s (log ev s) = [ev]"
  by (simp add: events_since_def trace_log)

lemma events_since_append:
  "trace s2 = trace s @ evs \<Longrightarrow> prefix (trace s2) (trace s') \<Longrightarrow>
     events_since s s' = evs @ events_since s2 s'"
  by (auto simp: events_since_def prefix_def)

lemma executor_loop_aborted:
  "maxIterations \<le> i \<Longrightarrow> executor_loop e input i pad s = (Inr Aborted, i, s)"
  by (simp add: executor_loop.simps)

lemma executor_loop_model_fails:
  "i < maxIterations \<Longrightarrow> chatModel e input pad = None \<Longrightarrow>
     executor_loop e input i pad s = (Inl ModelServiceError, Suc i, log (ModelCall input pad) s)"
  by (simp add: executor_loop.simps [of e input i])

lemma executor_loop_done:
  "i < maxIterations \<Longrightarrow> chatModel e input pad = Some (FinalAnswer answer) \<Longrightarrow>
     executor_loop e input i pad s = (Inr (Done answer), Suc i, log (ModelCall input pad) s)"
  by (simp add: executor_loop.simps [of e input i])

lemma executor_loop_tool:
  "i < maxIterations \<Longrightarrow> chatModel e input pad = Some (ToolRequest name arg) \<Longrightarrow>
     executor_loop e input i pad s =
       executor_loop e input (Suc i)
         (pad @ [(arg, fst (func e arg (log (ModelCall input pad) s)))])
         (log (EmbedQuery arg) (log (SimilaritySearch arg 5) (log (ModelCall input pad) s)))"
  using func_state [of e arg "log (ModelCall input pad) s"]
  by (cases "func e arg (log (ModelCall input pad) s)")
     (simp add: executor_loop.simps [of e input i])

text \<open>One round of the executor, by cases on what the model answers.\<close>

lemma executor_loop_round:
  assumes "i < maxIterations"
  obtains
    (model_fails) "chatModel e input pad = None"
      "executor_loop e input i pad s = (Inl ModelServiceError, Suc i, log (ModelCall input pad) s)"
  | (answered) answer where "chatModel e input pad = Some (FinalAnswer answer)"
      "executor_loop e input i pad s = (Inr (Done answer), Suc i, log (ModelCall input pad) s)"
  | (tool) name arg where "chatModel e input pad = Some (ToolRequest name arg)"
      "executor_loop e input i pad s =
         executor_loop e input (Suc i)
           (pad @ [(arg, fst (func e arg (log (ModelCall input pad) s)))])
           (log (EmbedQuery arg) (log (SimilaritySearch arg 5) (log (ModelCall input pad) s)))"
proof (cases "chatModel e input pad")
  case None
  then show ?thesis using assms model_fails executor_loop_model_fails by blast
next
  case (Some resp)
  show ?thesis
  proof (cases resp)
    case (FinalAnswer answer)
    with Some show ?thesis using assms answered executor_loop_done by blast
  next
    case (ToolRequest name arg)
    with Some show ?thesis using assms tool executor_loop_tool by blast
  qed
qed

lemma executor_loop_frame:
  "executor_loop e input i pad s = (r, n, s') \<Longrightarrow>
     memoryVectors s' = memoryVectors s \<and> prefix (trace s) (trace s') \<and>
     filter is_startup (trace s') = filter is_startup (trace s) \<and>
     filter is_prompt (trace s') = filter is_prompt (trace s)"
proof (induction k \<equiv> "maxIterations - i" arbitrary: i pad s)
  case 0
  then show ?case by (simp add: executor_loop_aborted)
next
  case (Suc k)
  then have lt: "i < maxIterations" by simp
  from lt show ?case
  proof (cases rule: executor_loop_round [where e = e and input = input and pad = pad and s = s])
    case model_fails
    with Suc.prems show ?thesis
      by (auto simp: trace_log memoryVectors_log is_startup_def is_prompt_def)
  next
    case (answered answer)
    with Suc.prems show ?thesis
      by (auto simp: trace_log memoryVectors_log is_startup_def is_prompt_def)
  next
    case (tool name arg)
    from Suc.hyps(2) have k: "k = maxIterations - Suc i" by simp
    from tool(2) Suc.prems have "executor_loop e input (Suc i)
           (pad @ [(arg, fst (func e arg (log (ModelCall input pad) s)))])
           (log (EmbedQuery arg) (log (SimilaritySearch arg 5) (log (ModelCall input pad) s))) = (r, n, s')"
      by simp
    from Suc.hyps(1) [OF k this]
    show ?thesis
      by (auto simp: trace_log memoryVectors_log is_startup_def is_prompt_def prefix_def)
  qed
qed

lemma executor_loop_count:
  "executor_loop e input i pad s = (r, n, s') \<Longrightarrow> i \<le> maxIterations \<Longrightarrow>
     i \<le> n \<and> n \<le> maxIterations \<and>
     length (filter is_model_call (trace s')) = length (filter is_model_call (trace s)) + (n - i) \<and>
     length (filter is_search (trace s')) \<le> length (filter is_search (trace s)) + (n - i)"
proof (induction k \<equiv> "maxIterations - i" arbitrary: i pad s)
  case 0
  then show ?case by (simp add: executor_loop_aborted)
next
  case (Suc k)
  then have lt: "i < maxIterations" by simp
  from lt show ?case
  proof (cases rule: executor_loop_round [where e = e and input = input and pad = pad and s = s])
    case model_fails
    with Suc.prems lt show ?thesis
      by (auto simp: trace_log is_model_call_def is_search_def)
  next
    case (answered answer)
    with Suc.prems lt show ?thesis
      by (auto simp: trace_log is_model_call_def is_search_def)
  next
    case (tool name arg)
    from Suc.hyps(2) have k: "k = maxIterations - Suc i" by simp
    from lt have "Suc i \<le> maxIterations" by simp
    moreover from tool(2) Suc.prems have "executor_loop e input (Suc i)
           (pad @ [(arg, fst (func e arg (log (ModelCall input pad) s)))])
           (log (EmbedQuery arg) (log (SimilaritySearch arg 5) (log (ModelCall input pad) s))) = (r, n, s')"
      by simp
    ultimately show ?thesis
      using Suc.hyps(1) [OF k] by (fastforce simp: trace_log is_model_call_def is_search_def)
  qed
qed

lemma executor_loop_always_tool:
  assumes m: "\<forall>input pad. \<exists>name arg. chatModel e input pad = Some (ToolRequest name arg)"
  shows "i \<le> maxIterations \<Longrightarrow> executor_loop e input i pad s = (r, n, s') \<Longrightarrow>
     r = Inr Aborted \<and> n = maxIterations \<and>
     length (filter is_search (trace s')) = length (filter is_search (trace s)) + (maxIterations - i)"
proof (induction k \<equiv> "maxIterations - i" arbitrary: i pad s)
  case 0
  then show ?case by (simp add: executor_loop_aborted)
next
  case (Suc k)
  then have lt: "i < maxIterations" by simp
  from lt show ?case
  proof (cases rule: executor_loop_round [where e = e and input = input and pad = pad and s = s])
    case model_fails
    with m show ?thesis by (metis option.distinct(1))
  next
    case (answered answer)
    with m show ?thesis by (metis option.inject model_response.distinct(1))
  next
    case (tool name arg)
    from Suc.hyps(2) have k: "k = maxIterations - Suc i" by simp
    from lt have "Suc i \<le> maxIterations" by simp
    moreover from tool(2) Suc.prems have "executor_loop e input (Suc i)
           (pad @ [(arg, fst (func e arg (log (ModelCall input pad) s)))])
           (log (EmbedQuery arg) (log (SimilaritySearch arg 5) (log (ModelCall input pad) s))) = (r, n, s')"
      by simp
    ultimately show ?thesis
      using Suc.hyps(1) [OF k] lt by (fastforce simp: trace_log is_search_def)
  qed
qed

text \<open>A turn is rejected exactly when one of its model calls fails, and with that error.\<close>

lemma executor_loop_rejects:
  "executor_loop e input i pad s = (r, n, s') \<Longrightarrow>
     (list_ex (failed_model_call e) (events_since s s') \<longleftrightarrow> r = Inl ModelServiceError) \<and>
     (\<forall>err. r = Inl err \<longrightarrow> err = ModelServiceError)"
proof (induction k \<equiv> "maxIterations - i" arbitrary: i pad s)
  case 0
  then show ?case by (auto simp: executor_loop_aborted events_since_self)
next
  case (Suc k)
  then have lt: "i < maxIterations" by simp
  from lt show ?case
  proof (cases rule: executor_loop_round [where e = e and input = input and pad = pad and s = s])
    case model_fails
    with Suc.prems show ?thesis
      by (auto simp: events_since_log failed_model_call_def)
  next
    case (answered answer)
    with Suc.prems show ?thesis
      by (auto simp: events_since_log failed_model_call_def)
  next
    case (tool name arg)
    define s2 where "s2 = log (EmbedQuery arg) (log (SimilaritySearch arg 5) (log (ModelCall input pad) s))"
    from Suc.hyps(2) have k: "k = maxIterations - Suc i" by simp
    from tool(2) Suc.prems have run: "executor_loop e input (Suc i)
           (pad @ [(arg, fst (func e arg (log (ModelCall input pad) s)))]) s2 = (r, n, s')"
      by (simp add: s2_def)
    have "trace s2 = trace s @ [ModelCall input pad, SimilaritySearch arg 5, EmbedQuery arg]"
      by (simp add: s2_def trace_log)
    moreover from executor_loop_frame [OF run] have "prefix (trace s2) (trace s')" by simp
    ultimately have "events_since s s' =
        [ModelCall input pad, SimilaritySearch arg 5, EmbedQuery arg] @ events_since s2 s'"
      by (rule events_since_append)
    with tool(1) have "list_ex (failed_model_call e) (events_since s s') =
        list_ex (failed_model_call e) (events_since s2 s')"
      by (simp add: failed_model_call_def)
    with Suc.hyps(1) [OF k run] show ?thesis by simp
  qed
qed

lemma executor_loop_no_failure:
  assumes m: "\<forall>input pad. chatModel e input pad \<noteq> None"
  shows "\<exists>res. fst (executor_loop e input i pad s) = Inr res"
proof -
  obtain r n s' where run: "executor_loop e input i pad s = (r, n, s')"
    by (cases "executor_loop e input i pad s") auto
  have "\<not> failed_model_call e ev" for ev
    using m by (cases ev) (simp_all add: failed_model_call_def)
  then have "\<not> list_ex (failed_model_call e) (events_since s s')"
    by (simp add: list_ex_iff)
  with executor_loop_rejects [OF run] have "\<forall>err. r \<noteq> Inl err" by blast
  then show ?thesis by (cases r) (simp_all add: run)
qed

section \<open>Facts about the join and the index\<close>

lemma sublist_join: "x \<in> set xs \<Longrightarrow> sublist x (join sep xs)"
proof (induction sep xs rule: join.induct)
  case (1 sep)
  then show ?case by simp
next
  case (2 sep y)
  then show ?case by simp
next
  case (3 sep y z zs)
  show ?case
  proof (cases "x = y")
    case True
    then show ?thesis by simp
  next
    case False
    with 3 have "sublist x (join sep (z # zs))" by simp
    then obtain ps ss where "join sep (z # zs) = ps @ x @ ss"
      by (auto simp: sublist_def)
    then have "join sep (y # z # zs) = (y @ sep @ ps) @ x @ ss" by simp
    then show ?thesis unfolding sublist_def by blast
  qed
qed

lemma query_index_length: "length (query_index e mv qv k) \<le> k"
  by (simp add: query_index_def)

lemma query_index_sorted: "sorted_wrt (\<lambda>a b. snd b \<le> snd a) (query_index e mv qv k)"
proof -
  let ?scored = "map (\<lambda>(d, v). (d, similarity e qv v)) mv"
  have "sorted (map (\<lambda>p. - snd p) (sort_key (\<lambda>p. - snd p) ?scored))"
    by (rule sorted_sort_key)
  then have "sorted_wrt (\<lambda>a b. snd b \<le> snd a) (sort_key (\<lambda>p. - snd p) ?scored)"
    by (simp add: sorted_map)
  then show ?thesis
    unfolding query_index_def by (rule sorted_wrt_take)
qed

lemma query_index_subset:
  "set (query_index e mv qv k) \<subseteq> (\<lambda>(d, v). (d, similarity e qv v)) ` set mv"
proof -
  have "set (query_index e mv qv k) \<subseteq> set (sort_key (\<lambda>p. - snd p) (map (\<lambda>(d, v). (d, similarity e qv v)) mv))"
    unfolding query_index_def by (rule set_take_subset)
  then show ?thesis by simp
qed

section \<open>Facts about the shell\<close>

lemma executor_invoke_first_call:
  "prefix (trace s @ [ModelCall input []]) (trace (snd (snd (executor_invoke e input s))))"
proof -
  have lt: "0 < maxIterations" by (simp add: maxIterations_def)
  obtain r n s' where run: "executor_loop e input 0 [] s = (r, n, s')"
    by (cases "executor_loop e input 0 [] s") auto
  from lt have "prefix (trace s @ [ModelCall input []]) (trace s')"
  proof (cases rule: executor_loop_round [where e = e and input = input and pad = "[]" and s = s])
    case model_fails
    with run show ?thesis by (auto simp: trace_log)
  next
    case (answered answer)
    with run show ?thesis by (auto simp: trace_log)
  next
    case (tool name arg)
    with run have "executor_loop e input (Suc 0)
        [(arg, fst (func e arg (log (ModelCall input []) s)))]
        (log (EmbedQuery arg) (log (SimilaritySearch arg 5) (log (ModelCall input []) s))) = (r, n, s')"
      by simp
    from executor_loop_frame [OF this]
    show ?thesis by (auto simp: trace_log prefix_def)
  qed
  with run show ?thesis by (simp add: executor_invoke_def)
qed

lemma repl_frame:
  "memoryVectors (snd (repl e rounds s)) = memoryVectors s \<and>
   prefix (trace s) (trace (snd (repl e rounds s))) \<and>
   filter is_startup (trace (snd (repl e rounds s))) = filter is_startup (trace s)"
proof (induction rounds arbitrary: s)
  case Nil
  show ?case by (simp add: trace_log memoryVectors_log is_startup_def)
next
  case (Cons r rest)
  define s1 where "s1 = log (AskQuestion ''You: '') s"
  have s1: "memoryVectors s1 = memoryVectors s" "trace s1 = trace s @ [AskQuestion ''You: '']"
    by (simp_all add: s1_def trace_log memoryVectors_log)
  show ?case
  proof (cases "toLowerCase (typed r) = ''exit''")
    case True
    then show ?thesis by (simp add: trace_log memoryVectors_log is_startup_def)
  next
    case False
    obtain res n s2 where run: "executor_invoke e (typed r) s1 = (res, n, s2)"
      by (cases "executor_invoke e (typed r) s1") auto
    from executor_loop_frame [of e "typed r" 0 "[]" s1 res n s2] run
    have s2: "memoryVectors s2 = memoryVectors s" "prefix (trace s) (trace s2)"
      "filter is_startup (trace s2) = filter is_startup (trace s)"
      by (auto simp: executor_invoke_def s1 is_startup_def prefix_def)
    show ?thesis
    proof (cases res)
      case (Inl err)
      with False run s2 show ?thesis by (simp add: s1_def [symmetric])
    next
      case (Inr result)
      define s3 where "s3 = log (ConsoleLog (Output (output_text result @ [CHR 0x0A]))) (log (ConsoleLog SpendingSummary) s2)"
      have s3: "memoryVectors s3 = memoryVectors s" "prefix (trace s) (trace s3)"
        "filter is_startup (trace s3) = filter is_startup (trace s)"
        using s2 by (auto simp: s3_def trace_log memoryVectors_log is_startup_def prefix_def)
      from Inr False run have step: "repl e (r # rest) s =
          (if ended r then (Crashed UseAfterClose, s3) else repl e rest s3)"
        by (simp add: s1_def [symmetric] s3_def Let_def)
      show ?thesis
      proof (cases "ended r")
        case True
        with step s3 show ?thesis by simp
      next
        case False
        with step Cons.IH [of s3] s3 show ?thesis
          by (auto simp: prefix_def)
      qed
    qed
  qed
qed

lemma toLowerCase_any_case:
  assumes "any_case ''exit'' line"
  shows "toLowerCase line = ''exit''"
proof -
  have low: "toLowerCase_char c = k"
    if "c = k \<or> of_char c + 32 = (of_char k :: nat)" and "k \<in> set ''exit''" for c k
  proof (cases "c = k")
    case True
    with that(2) show ?thesis by (auto simp: toLowerCase_char_def)
  next
    case False
    with that(1) have eq: "of_char c + 32 = (of_char k :: nat)" by simp
    then have "char_of (of_char c + 32 :: nat) = k" by simp
    with eq that(2) show ?thesis by (auto simp: toLowerCase_char_def Let_def)
  qed
  from assms show ?thesis
    by (auto simp: any_case_def toLowerCase_def list_all2_Cons1 low)
qed

lemma process_startup:
  assumes "OPENAI_API_KEY e = Some key"
    and "fileContent e ''documents/transactions.csv'' = Some content"
    and "embedDocuments e (chunks content 1000 100) = Some vectors"
  shows "process e rounds =
     repl e rounds
       \<lparr>memoryVectors = zip (map Document (chunks content 1000 100)) vectors,
        trace = [ReadFile ''documents/transactions.csv'', EmbedDocuments (chunks content 1000 100),
                 ConsoleLog Banner]\<rparr>"
  using assms
  by (simp add: process_def main_def loadTransactionChunks_def createVectorStore_def splitText_def
      chunkSize_def chunkOverlap_def initial_state_def log_def Let_def comp_def)

lemma process_no_credential:
  "OPENAI_API_KEY e = None \<Longrightarrow> process e rounds = (Crashed ConfigError, initial_state)"
  by (simp add: process_def)

lemma process_no_file:
  "OPENAI_API_KEY e = Some key \<Longrightarrow> fileContent e ''documents/transactions.csv'' = None \<Longrightarrow>
     process e rounds = (Crashed IOError, log (ReadFile ''documents/transactions.csv'') initial_state)"
  by (simp add: process_def main_def loadTransactionChunks_def Let_def)

lemma process_no_embedding:
  "OPENAI_API_KEY e = Some key \<Longrightarrow> fileContent e ''documents/transactions.csv'' = Some content \<Longrightarrow>
   embedDocuments e (chunks content 1000 100) = None \<Longrightarrow>
     process e rounds =
       (Crashed EmbeddingServiceError,
        log (EmbedDocuments (chunks content 1000 100))
          (log (ReadFile ''documents/transactions.csv'') initial_state))"
  by (simp add: process_def main_def loadTransactionChunks_def createVectorStore_def splitText_def
      chunkSize_def chunkOverlap_def Let_def comp_def)

text \<open>
  When no model call fails, the rounds alone decide how the run ends: the turns that
  run are those before the first exit keyword; the end of standard input during one of
  them makes the next prompt throw.
\<close>

lemma repl_outcome:
  assumes m: "\<forall>input pad. chatModel e input pad \<noteq> None"
  shows "fst (repl e rounds s) =
     (if list_ex ended (takeWhile (\<lambda>r. toLowerCase (typed r) \<noteq> ''exit'') rounds)
      then Crashed UseAfterClose
      else if list_ex (\<lambda>r. toLowerCase (typed r) = ''exit'') rounds then ExitCommand
      else EndOfInput)"
proof (induction rounds arbitrary: s)
  case Nil
  show ?case by simp
next
  case (Cons r rest)
  show ?case
  proof (cases "toLowerCase (typed r) = ''exit''")
    case True
    then show ?thesis by simp
  next
    case False
    define s1 where "s1 = log (AskQuestion ''You: '') s"
    from executor_loop_no_failure [OF m, of "typed r" 0 "[]" s1]
    obtain res n s2 where "executor_invoke e (typed r) s1 = (Inr res, n, s2)"
      by (cases "executor_invoke e (typed r) s1") (auto simp: executor_invoke_def)
    with False Cons.IH show ?thesis
      by (simp add: s1_def [symmetric] Let_def)
  qed
qed


section \<open>Claims\<close>

text \<open>
  C7. For every text, chunk size \<open>sz\<close> and overlap \<open>ov\<close> with \<open>ov < sz\<close>, splitting the text
  succeeds, and rejoining the chunks while dropping the overlapping span of every chunk
  after the first gives back the text exactly.
\<close>

theorem split_rejoin_roundtrip:
  "ov < sz \<Longrightarrow> (case splitText t sz ov of Inl err \<Rightarrow> False | Inr cs \<Rightarrow> rejoin ov cs = t)"
  by (simp add: splitText_def chunks_rejoin)

theorem split_rejoin_roundtrip_witness:
  "(1::nat) < 4 \<and> splitText ''abcdefghij'' 4 1 = Inr [''abcd'', ''defg'', ''ghij'']
     \<and> rejoin 1 [''abcd'', ''defg'', ''ghij''] = ''abcdefghij''"
proof -
  have cs: "splitText ''abcdefghij'' 4 1 = Inr [''abcd'', ''defg'', ''ghij'']"
    by code_simp
  from split_rejoin_roundtrip [of 1 4 "''abcdefghij''"] cs show ?thesis
    by simp
qed

text \<open>
  C3. A turn never begins more than 10 iterations and never calls the model more than 10
  times. When the model requests the tool on every iteration, the turn ends after
  exactly 10 iterations, each with one model call and one search, in the fallback result
  \<open>Aborted\<close>, whether the searches succeed or fail.
\<close>

theorem executor_ceiling:
  "fst (snd (executor_invoke e input s)) \<le> 10 \<and>
   length (filter is_model_call (trace (snd (snd (executor_invoke e input s)))))
     \<le> length (filter is_model_call (trace s)) + 10 \<and>
   ((\<forall>input pad. \<exists>name arg. chatModel e input pad = Some (ToolRequest name arg)) \<longrightarrow>
      fst (executor_invoke e input s) = Inr Aborted \<and>
      fst (snd (executor_invoke e input s)) = 10 \<and>
      length (filter is_model_call (trace (snd (snd (executor_invoke e input s)))))
        = length (filter is_model_call (trace s)) + 10 \<and>
      length (filter is_search (trace (snd (snd (executor_invoke e input s)))))
        = length (filter is_search (trace s)) + 10)"
proof -
  obtain r n s' where run: "executor_loop e input 0 [] s = (r, n, s')"
    by (cases "executor_loop e input 0 [] s") auto
  from executor_loop_count [OF run]
  have count: "n \<le> maxIterations"
    "length (filter is_model_call (trace s')) = length (filter is_model_call (trace s)) + n"
    by simp_all
  have "r = Inr Aborted \<and> n = maxIterations \<and>
      length (filter is_search (trace s')) = length (filter is_search (trace s)) + maxIterations"
    if "\<forall>input pad. \<exists>name arg. chatModel e input pad = Some (ToolRequest name arg)"
    using executor_loop_always_tool [OF that _ run] by simp
  with count show ?thesis
    by (auto simp: executor_invoke_def run maxIterations_def)
qed

theorem executor_ceiling_witness:
  "(\<forall>input pad. \<exists>name arg. chatModel (sample_env tool_model) input pad = Some (ToolRequest name arg)) \<and>
   fst (executor_invoke (sample_env tool_model) ''groceries'' initial_state) = Inr Aborted \<and>
   fst (snd (executor_invoke (sample_env tool_model) ''groceries'' initial_state)) = 10 \<and>
   (\<forall>input pad. \<exists>name arg.
      chatModel (no_query_embedding (sample_env tool_model)) input pad = Some (ToolRequest name arg)) \<and>
   embedQuery (no_query_embedding (sample_env tool_model)) ''groceries'' = None \<and>
   fst (executor_invoke (no_query_embedding (sample_env tool_model)) ''groceries'' initial_state)
     = Inr Aborted \<and>
   fst (snd (executor_invoke (no_query_embedding (sample_env tool_model)) ''groceries'' initial_state))
     = 10"
  using executor_ceiling [of "sample_env tool_model" "''groceries''" initial_state]
    executor_ceiling [of "no_query_embedding (sample_env tool_model)" "''groceries''" initial_state]
  by (simp add: sample_env_def tool_model_def no_query_embedding_def)


text \<open>
  C4. For every query, the retrieval tool performs exactly one similarity search, with
  \<open>k = 5\<close>. When the embedding of the query fails the tool fails with that error;
  otherwise it returns the page contents of the retrieved chunks joined with the
  delimiter, and the text of every retrieved chunk occurs in the result as it is.
\<close>

theorem retriever_tool:
  "filter is_search (trace (snd (func e query s))) = filter is_search (trace s) @ [SimilaritySearch query 5] \<and>
   (embedQuery e query = None \<longrightarrow> fst (func e query s) = Inl EmbeddingServiceError) \<and>
   (\<forall>qv. embedQuery e query = Some qv \<longrightarrow>
      fst (func e query s) =
        Inr (join delimiter (map pageContent (map fst (query_index e (memoryVectors s) qv 5)))) \<and>
      (\<forall>d \<in> set (map fst (query_index e (memoryVectors s) qv 5)).
         sublist (pageContent d)
           (join delimiter (map pageContent (map fst (query_index e (memoryVectors s) qv 5))))))"
proof -
  have "filter is_search (trace (snd (func e query s))) = filter is_search (trace s) @ [SimilaritySearch query 5]"
    by (simp add: func_state trace_log is_search_def)
  moreover have "fst (func e query s) = Inl EmbeddingServiceError" if "embedQuery e query = None"
    using that by (simp add: func_result)
  moreover have "fst (func e query s) =
        Inr (join delimiter (map pageContent (map fst (query_index e (memoryVectors s) qv 5))))"
    if "embedQuery e query = Some qv" for qv
    using that by (simp add: func_result)
  moreover have "sublist (pageContent d)
           (join delimiter (map pageContent (map fst (query_index e (memoryVectors s) qv 5))))"
    if "d \<in> set (map fst (query_index e (memoryVectors s) qv 5))" for d qv
    by (rule sublist_join) (use that in auto)
  ultimately show ?thesis by blast
qed

theorem retriever_tool_witness:
  "embedQuery (sample_env direct_model) ''xyzw'' = Some [4] \<and>
   func (sample_env direct_model) ''xyzw'' sample_state =
     (Inr (''dddd'' @ delimiter @ ''ccc'' @ delimiter @ ''eeeee'' @ delimiter @ ''bb'' @ delimiter @ ''ffffff''),
      sample_state\<lparr>trace := [SimilaritySearch ''xyzw'' 5, EmbedQuery ''xyzw'']\<rparr>) \<and>
   sublist ''eeeee'' (''dddd'' @ delimiter @ ''ccc'' @ delimiter @ ''eeeee'' @ delimiter @ ''bb'' @ delimiter @ ''ffffff'')"
proof -
  have q: "embedQuery (sample_env direct_model) ''xyzw'' = Some [4]"
    by (simp add: sample_env_def)
  have idx: "map fst (query_index (sample_env direct_model) (memoryVectors sample_state) [4] 5) =
      [Document ''dddd'', Document ''ccc'', Document ''eeeee'', Document ''bb'', Document ''ffffff'']"
    by code_simp
  have run: "func (sample_env direct_model) ''xyzw'' sample_state =
     (Inr (''dddd'' @ delimiter @ ''ccc'' @ delimiter @ ''eeeee'' @ delimiter @ ''bb'' @ delimiter @ ''ffffff''),
      sample_state\<lparr>trace := [SimilaritySearch ''xyzw'' 5, EmbedQuery ''xyzw'']\<rparr>)"
    by code_simp
  from retriever_tool [of "sample_env direct_model" "''xyzw''" sample_state] q
  have "\<forall>d \<in> set (map fst (query_index (sample_env direct_model) (memoryVectors sample_state) [4] 5)).
         sublist (pageContent d)
           (join delimiter (map pageContent (map fst (query_index (sample_env direct_model) (memoryVectors sample_state) [4] 5))))"
    by blast
  then have "sublist (pageContent (Document ''eeeee''))
      (join delimiter (map pageContent [Document ''dddd'', Document ''ccc'', Document ''eeeee'', Document ''bb'', Document ''ffffff'']))"
    unfolding idx by simp
  then have "sublist ''eeeee'' (''dddd'' @ delimiter @ ''ccc'' @ delimiter @ ''eeeee'' @ delimiter @ ''bb'' @ delimiter @ ''ffffff'')"
    by simp
  then show ?thesis using q run by blast
qed

text \<open>
  C5. For every index, query and \<open>k\<close>, the query of the embedding index returns at most
  \<open>k\<close> results, ordered by non-increasing similarity score, each of them a chunk of the
  index with its score.
\<close>

theorem index_query_bounded_sorted:
  "length (query_index e mv qv k) \<le> k \<and>
   sorted_wrt (\<lambda>a b. snd b \<le> snd a) (query_index e mv qv k) \<and>
   set (query_index e mv qv k) \<subseteq> (\<lambda>(d, v). (d, similarity e qv v)) ` set mv \<and>
   (\<forall>rs. fst (similaritySearchWithScore e query k s) = Inr rs \<longrightarrow>
      length rs \<le> k \<and> sorted_wrt (\<lambda>a b. snd b \<le> snd a) rs)"
proof -
  have "length rs \<le> k \<and> sorted_wrt (\<lambda>a b. snd b \<le> snd a) rs"
    if "fst (similaritySearchWithScore e query k s) = Inr rs" for rs
    using that query_index_length query_index_sorted
    by (auto simp: similaritySearchWithScore_def Let_def split: option.splits)
  then show ?thesis
    using query_index_length query_index_sorted query_index_subset by blast
qed

theorem index_query_bounded_sorted_witness:
  "fst (similaritySearchWithScore (sample_env direct_model) ''xyzw'' 3 sample_state) =
     Inr [(Document ''dddd'', 0), (Document ''ccc'', - 1), (Document ''eeeee'', - 1)] \<and>
   length [(Document ''dddd'', 0 :: rat), (Document ''ccc'', - 1), (Document ''eeeee'', - 1)] \<le> 3 \<and>
   sorted_wrt (\<lambda>a b. snd b \<le> snd a) [(Document ''dddd'', 0 :: rat), (Document ''ccc'', - 1), (Document ''eeeee'', - 1)]"
proof -
  have run: "fst (similaritySearchWithScore (sample_env direct_model) ''xyzw'' 3 sample_state) =
     Inr [(Document ''dddd'', 0), (Document ''ccc'', - 1), (Document ''eeeee'', - 1)]"
    by code_simp
  from index_query_bounded_sorted [of "sample_env direct_model" _ _ 3 "''xyzw''" sample_state] run
  show ?thesis by blast
qed

text \<open>
  C10. The splitter is configured with chunk size 1000 and overlap 100, the overlap is
  below the chunk size, and so splitting never yields the configuration error: loading
  the chunks fails only when the file cannot be read.
\<close>

theorem splitter_configuration:
  "chunkSize = 1000 \<and> chunkOverlap = 100 \<and> chunkOverlap < chunkSize \<and>
   splitText content chunkSize chunkOverlap = Inr (chunks content 1000 100) \<and>
   fst (loadTransactionChunks e s) \<noteq> Inl ConfigError"
  by (simp add: chunkSize_def chunkOverlap_def splitText_def loadTransactionChunks_def Let_def
      split: option.splits)




text \<open>
  C2, as the program has it. When startup succeeds and the first line is the exit
  keyword in any letter case, the run ends by the exit command with exit code 0, and
  its whole trace is the file read, the embedding of the chunks, the banner, one prompt
  and the farewell: no model call and no query embedding is made, and the one network
  call of the run is the embedding of the chunks at startup.
\<close>

theorem exit_first:
  assumes "OPENAI_API_KEY e = Some key"
    and "fileContent e ''documents/transactions.csv'' = Some content"
    and "embedDocuments e (chunks content 1000 100) = Some vectors"
    and "any_case ''exit'' (typed r)"
  shows "fst (process e (r # rest)) = ExitCommand \<and>
     exit_code (fst (process e (r # rest))) = 0 \<and>
     trace (snd (process e (r # rest))) =
       [ReadFile ''documents/transactions.csv'', EmbedDocuments (chunks content 1000 100),
        ConsoleLog Banner, AskQuestion ''You: '', ConsoleLog Goodbye] \<and>
     filter is_network (trace (snd (process e (r # rest)))) =
       [EmbedDocuments (chunks content 1000 100)]"
  using toLowerCase_any_case [OF assms(4)]
  by (simp add: process_startup [OF assms(1-3)] exit_code_def trace_log is_network_def)

theorem exit_first_witness:
  "OPENAI_API_KEY (sample_env direct_model) = Some ''sk-test'' \<and>
   fileContent (sample_env direct_model) ''documents/transactions.csv'' = Some sample_file \<and>
   embedDocuments (sample_env direct_model) (chunks sample_file 1000 100) = Some [[53]] \<and>
   any_case ''exit'' (typed (typed_line ''EXIT'')) \<and>
   fst (process (sample_env direct_model) [typed_line ''EXIT'', typed_line ''hello'']) = ExitCommand \<and>
   exit_code (fst (process (sample_env direct_model) [typed_line ''EXIT'', typed_line ''hello''])) = 0"
proof -
  have a: "OPENAI_API_KEY (sample_env direct_model) = Some ''sk-test''"
    and b: "fileContent (sample_env direct_model) ''documents/transactions.csv'' = Some sample_file"
    by (simp_all add: sample_env_def)
  have c: "embedDocuments (sample_env direct_model) (chunks sample_file 1000 100) = Some [[53]]"
    by code_simp
  have d: "any_case ''exit'' (typed (typed_line ''EXIT''))" by code_simp
  from exit_first [OF a b c d, of "[typed_line ''hello'']"] a b c d show ?thesis by blast
qed

text \<open>
  Against C2 as stated: with the exit keyword as the very first line, the embedding
  service has been called before the run ends.
\<close>

theorem exit_first_counterexample:
  "fst (process (sample_env direct_model) [typed_line ''EXIT'']) = ExitCommand \<and>
   exit_code (fst (process (sample_env direct_model) [typed_line ''EXIT''])) = 0 \<and>
   filter is_network (trace (snd (process (sample_env direct_model) [typed_line ''EXIT'']))) =
     [EmbedDocuments [sample_file]]"
  by code_simp

text \<open>
  C6, as the program has it. The line is not trimmed. A line whose lower-case form is
  the exit keyword ends the loop; every other line, the empty one and one with white
  space around the keyword included, is what the model is called with first, unchanged.
\<close>

theorem line_forwarded_as_read:
  "(toLowerCase (typed r) = ''exit'' \<longrightarrow>
      repl e (r # rest) s =
        (ExitCommand, log (ConsoleLog Goodbye) (log (AskQuestion ''You: '') s))) \<and>
   (toLowerCase (typed r) \<noteq> ''exit'' \<longrightarrow>
      prefix (trace s @ [AskQuestion ''You: '', ModelCall (typed r) []])
        (trace (snd (repl e (r # rest) s))))"
proof -
  define s1 where "s1 = log (AskQuestion ''You: '') s"
  have "prefix (trace s @ [AskQuestion ''You: '', ModelCall (typed r) []])
        (trace (snd (repl e (r # rest) s)))" if ne: "toLowerCase (typed r) \<noteq> ''exit''"
  proof -
    obtain res n s2 where run: "executor_invoke e (typed r) s1 = (res, n, s2)"
      by (cases "executor_invoke e (typed r) s1") auto
    from executor_invoke_first_call [of s1 "typed r" e] run
    have first: "prefix (trace s @ [AskQuestion ''You: '', ModelCall (typed r) []]) (trace s2)"
      by (simp add: s1_def trace_log)
    show ?thesis
    proof (cases res)
      case (Inl err)
      with ne run first show ?thesis by (simp add: s1_def [symmetric])
    next
      case (Inr result)
      define s3 where "s3 = log (ConsoleLog (Output (output_text result @ [CHR 0x0A]))) (log (ConsoleLog SpendingSummary) s2)"
      from Inr ne run have step: "repl e (r # rest) s =
          (if ended r then (Crashed UseAfterClose, s3) else repl e rest s3)"
        by (simp add: s1_def [symmetric] s3_def Let_def)
      have "prefix (trace s2) (trace s3)"
        by (simp add: s3_def trace_log)
      moreover have "prefix (trace s3) (trace (snd (repl e (r # rest) s)))"
        using repl_frame [of e rest s3] step by simp
      ultimately show ?thesis using first
        by (metis prefix_order.order_trans)
    qed
  qed
  then show ?thesis by simp
qed

theorem line_forwarded_as_read_witness:
  "toLowerCase (typed (typed_line ''Exit'')) = ''exit'' \<and>
   repl (sample_env direct_model) [typed_line ''Exit'', typed_line ''more''] initial_state =
     (ExitCommand, log (ConsoleLog Goodbye) (log (AskQuestion ''You: '') initial_state)) \<and>
   toLowerCase (typed (typed_line [])) \<noteq> ''exit'' \<and>
   prefix (trace initial_state @ [AskQuestion ''You: '', ModelCall (typed (typed_line [])) []])
     (trace (snd (repl (sample_env direct_model) [typed_line [], typed_line ''more''] initial_state))) \<and>
   toLowerCase (typed (typed_line '' exit '')) \<noteq> ''exit'' \<and>
   prefix (trace initial_state @ [AskQuestion ''You: '', ModelCall (typed (typed_line '' exit '')) []])
     (trace (snd (repl (sample_env direct_model) [typed_line '' exit '', typed_line ''more''] initial_state)))"
proof -
  have a: "toLowerCase (typed (typed_line ''Exit'')) = ''exit''" by code_simp
  have b: "toLowerCase (typed (typed_line [])) \<noteq> ''exit''" by code_simp
  have c: "toLowerCase (typed (typed_line '' exit '')) \<noteq> ''exit''" by code_simp
  from line_forwarded_as_read [of "typed_line ''Exit''" "sample_env direct_model" "[typed_line ''more'']" initial_state]
       line_forwarded_as_read [of "typed_line []" "sample_env direct_model" "[typed_line ''more'']" initial_state]
       line_forwarded_as_read [of "typed_line '' exit ''" "sample_env direct_model" "[typed_line ''more'']" initial_state]
       a b c
  show ?thesis by blast
qed

text \<open>
  Against C6 as stated: the line \<open>'' exit''\<close> trims to the exit keyword, so the
  specification's test holds of it, yet the loop forwards it to the model and goes on.
\<close>

theorem untrimmed_line_counterexample:
  "spec_is_exit '' exit'' \<and>
   fst (process (sample_env direct_model) [typed_line '' exit'']) = EndOfInput \<and>
   filter is_model_call (trace (snd (process (sample_env direct_model) [typed_line '' exit'']))) =
     [ModelCall '' exit'' []]"
  by code_simp

text \<open>
  C8. When startup succeeds, the file is read once and the chunks are embedded once,
  and the vector store at the end of the run is the one built at startup; the loop, a
  turn of the executor and a call of the tool each leave the store as it is and add no
  file read and no embedding of chunks.
\<close>

theorem chunks_fixed_after_startup:
  assumes "OPENAI_API_KEY e = Some key"
    and "fileContent e ''documents/transactions.csv'' = Some content"
    and "embedDocuments e (chunks content 1000 100) = Some vectors"
  shows "memoryVectors (snd (process e rounds)) = zip (map Document (chunks content 1000 100)) vectors \<and>
     filter is_startup (trace (snd (process e rounds))) =
       [ReadFile ''documents/transactions.csv'', EmbedDocuments (chunks content 1000 100)] \<and>
     memoryVectors (snd (repl e ls s)) = memoryVectors s \<and>
     filter is_startup (trace (snd (repl e ls s))) = filter is_startup (trace s) \<and>
     memoryVectors (snd (snd (executor_invoke e input s))) = memoryVectors s \<and>
     filter is_startup (trace (snd (snd (executor_invoke e input s)))) = filter is_startup (trace s) \<and>
     memoryVectors (snd (func e input s)) = memoryVectors s \<and>
     filter is_startup (trace (snd (func e input s))) = filter is_startup (trace s)"
proof -
  obtain r n s' where run: "executor_loop e input 0 [] s = (r, n, s')"
    by (cases "executor_loop e input 0 [] s") auto
  from executor_loop_frame [OF run]
  have turn: "memoryVectors (snd (snd (executor_invoke e input s))) = memoryVectors s"
    "filter is_startup (trace (snd (snd (executor_invoke e input s)))) = filter is_startup (trace s)"
    by (simp_all add: executor_invoke_def run)
  have tool: "memoryVectors (snd (func e input s)) = memoryVectors s"
    "filter is_startup (trace (snd (func e input s))) = filter is_startup (trace s)"
    by (simp_all add: func_state trace_log memoryVectors_log is_startup_def)
  have start: "memoryVectors (snd (process e rounds)) = zip (map Document (chunks content 1000 100)) vectors"
    "filter is_startup (trace (snd (process e rounds))) =
       [ReadFile ''documents/transactions.csv'', EmbedDocuments (chunks content 1000 100)]"
    using repl_frame [of e rounds "\<lparr>memoryVectors = zip (map Document (chunks content 1000 100)) vectors,
        trace = [ReadFile ''documents/transactions.csv'', EmbedDocuments (chunks content 1000 100),
                 ConsoleLog Banner]\<rparr>"]
    by (simp_all add: process_startup [OF assms] is_startup_def)
  from start turn tool repl_frame [of e ls s] show ?thesis by simp
qed

theorem chunks_fixed_after_startup_witness:
  "OPENAI_API_KEY (sample_env tool_model) = Some ''sk-test'' \<and>
   fileContent (sample_env tool_model) ''documents/transactions.csv'' = Some sample_file \<and>
   embedDocuments (sample_env tool_model) (chunks sample_file 1000 100) = Some [[53]] \<and>
   memoryVectors (snd (process (sample_env tool_model) [typed_line ''groceries'', typed_line ''exit''])) =
     [(Document sample_file, [53])] \<and>
   filter is_startup (trace (snd (process (sample_env tool_model) [typed_line ''groceries'', typed_line ''exit'']))) =
     [ReadFile ''documents/transactions.csv'', EmbedDocuments [sample_file]]"
proof -
  have a: "OPENAI_API_KEY (sample_env tool_model) = Some ''sk-test''"
    and b: "fileContent (sample_env tool_model) ''documents/transactions.csv'' = Some sample_file"
    by (simp_all add: sample_env_def)
  have c: "embedDocuments (sample_env tool_model) (chunks sample_file 1000 100) = Some [[53]]"
    by code_simp
  have d: "chunks sample_file 1000 100 = [sample_file]" by code_simp
  from chunks_fixed_after_startup [OF a b c, of "[typed_line ''groceries'', typed_line ''exit'']"] a b c d
  show ?thesis by simp
qed

text \<open>
  C9, as the program has it. A missing credential, a missing transactions file or a
  failed embedding of the chunks ends the process with exit code 1 before any prompt.
  When startup succeeds and no model call fails, the turns that run are those of the
  lines before the first exit keyword: if standard input ends during one of them, the
  next prompt throws and the exit code is 1; otherwise the run ends by the exit command,
  or with a question left pending when standard input ends at a prompt, and the exit
  code is 0.
\<close>

theorem exit_codes:
  "(OPENAI_API_KEY e = None \<or> fileContent e ''documents/transactions.csv'' = None \<or>
    (\<exists>content. fileContent e ''documents/transactions.csv'' = Some content \<and>
       embedDocuments e (chunks content 1000 100) = None) \<longrightarrow>
      exit_code (fst (process e rounds)) = 1 \<and>
      filter is_prompt (trace (snd (process e rounds))) = []) \<and>
   (OPENAI_API_KEY e \<noteq> None \<and>
    (\<exists>content. fileContent e ''documents/transactions.csv'' = Some content \<and>
       embedDocuments e (chunks content 1000 100) \<noteq> None) \<and>
    (\<forall>input pad. chatModel e input pad \<noteq> None) \<longrightarrow>
      fst (process e rounds) =
        (if list_ex ended (takeWhile (\<lambda>r. toLowerCase (typed r) \<noteq> ''exit'') rounds)
         then Crashed UseAfterClose
         else if list_ex (\<lambda>r. toLowerCase (typed r) = ''exit'') rounds then ExitCommand
         else EndOfInput) \<and>
      exit_code (fst (process e rounds)) =
        (if list_ex ended (takeWhile (\<lambda>r. toLowerCase (typed r) \<noteq> ''exit'') rounds)
         then 1 else 0))"
proof -
  have "exit_code (fst (process e rounds)) = 1 \<and> filter is_prompt (trace (snd (process e rounds))) = []"
    if "OPENAI_API_KEY e = None \<or> fileContent e ''documents/transactions.csv'' = None \<or>
      (\<exists>content. fileContent e ''documents/transactions.csv'' = Some content \<and>
         embedDocuments e (chunks content 1000 100) = None)"
  proof (cases "OPENAI_API_KEY e")
    case None
    then show ?thesis
      by (simp add: process_no_credential exit_code_def initial_state_def)
  next
    case (Some key)
    show ?thesis
    proof (cases "fileContent e ''documents/transactions.csv''")
      case None
      from process_no_file [OF Some None] show ?thesis
        by (simp add: exit_code_def initial_state_def trace_log is_prompt_def)
    next
      case content: (Some content)
      with Some that have "embedDocuments e (chunks content 1000 100) = None" by simp
      from process_no_embedding [OF Some content this] show ?thesis
        by (simp add: exit_code_def initial_state_def trace_log is_prompt_def)
    qed
  qed
  moreover have "fst (process e rounds) =
        (if list_ex ended (takeWhile (\<lambda>r. toLowerCase (typed r) \<noteq> ''exit'') rounds)
         then Crashed UseAfterClose
         else if list_ex (\<lambda>r. toLowerCase (typed r) = ''exit'') rounds then ExitCommand
         else EndOfInput) \<and>
      exit_code (fst (process e rounds)) =
        (if list_ex ended (takeWhile (\<lambda>r. toLowerCase (typed r) \<noteq> ''exit'') rounds)
         then 1 else 0)"
    if "OPENAI_API_KEY e \<noteq> None"
      and "\<exists>content. fileContent e ''documents/transactions.csv'' = Some content \<and>
       embedDocuments e (chunks content 1000 100) \<noteq> None"
      and m: "\<forall>input pad. chatModel e input pad \<noteq> None"
  proof -
    from that(1,2) obtain key content vectors where
      "OPENAI_API_KEY e = Some key" "fileContent e ''documents/transactions.csv'' = Some content"
      "embedDocuments e (chunks content 1000 100) = Some vectors" by auto
    from process_startup [OF this] repl_outcome [OF m]
    show ?thesis by (simp add: exit_code_def)
  qed
  ultimately show ?thesis by blast
qed

theorem exit_codes_witness:
  "OPENAI_API_KEY ((sample_env direct_model)\<lparr>OPENAI_API_KEY := None\<rparr>) = None \<and>
   exit_code (fst (process ((sample_env direct_model)\<lparr>OPENAI_API_KEY := None\<rparr>) [typed_line ''exit''])) = 1 \<and>
   fileContent ((sample_env direct_model)\<lparr>fileContent := \<lambda>path. None\<rparr>) ''documents/transactions.csv'' = None \<and>
   exit_code (fst (process ((sample_env direct_model)\<lparr>fileContent := \<lambda>path. None\<rparr>) [typed_line ''exit''])) = 1 \<and>
   OPENAI_API_KEY (sample_env direct_model) \<noteq> None \<and>
   fileContent (sample_env direct_model) ''documents/transactions.csv'' = Some sample_file \<and>
   embedDocuments (sample_env direct_model) (chunks sample_file 1000 100) \<noteq> None \<and>
   (\<forall>input pad. chatModel (sample_env direct_model) input pad \<noteq> None) \<and>
   fst (process (sample_env direct_model) [typed_line ''hello'', typed_line ''Exit'']) = ExitCommand \<and>
   exit_code (fst (process (sample_env direct_model) [typed_line ''hello'', typed_line ''Exit''])) = 0 \<and>
   fst (process (sample_env direct_model) [typed_line ''hello'']) = EndOfInput \<and>
   exit_code (fst (process (sample_env direct_model) [typed_line ''hello''])) = 0 \<and>
   fst (process (sample_env direct_model) [TurnInput ''hello'' [''exit''] True]) = Crashed UseAfterClose \<and>
   exit_code (fst (process (sample_env direct_model) [TurnInput ''hello'' [''exit''] True])) = 1"
proof -
  have a: "OPENAI_API_KEY ((sample_env direct_model)\<lparr>OPENAI_API_KEY := None\<rparr>) = None"
    and b: "fileContent ((sample_env direct_model)\<lparr>fileContent := \<lambda>path. None\<rparr>) ''documents/transactions.csv'' = None"
    and c: "OPENAI_API_KEY (sample_env direct_model) \<noteq> None"
    and d: "fileContent (sample_env direct_model) ''documents/transactions.csv'' = Some sample_file"
    and f: "embedDocuments (sample_env direct_model) (chunks sample_file 1000 100) \<noteq> None"
    and g: "\<forall>input pad. chatModel (sample_env direct_model) input pad \<noteq> None"
    by (simp_all add: sample_env_def direct_model_def)
  let ?turns = "takeWhile (\<lambda>r. toLowerCase (typed r) \<noteq> ''exit'')"
  have i: "\<not> list_ex ended (?turns [typed_line ''hello'', typed_line ''Exit''])"
      "list_ex (\<lambda>r. toLowerCase (typed r) = ''exit'') [typed_line ''hello'', typed_line ''Exit'']"
    and j: "\<not> list_ex ended (?turns [typed_line ''hello''])"
      "\<not> list_ex (\<lambda>r. toLowerCase (typed r) = ''exit'') [typed_line ''hello'']"
    and h: "list_ex ended (?turns [TurnInput ''hello'' [''exit''] True])"
    by code_simp+
  from exit_codes [of "(sample_env direct_model)\<lparr>OPENAI_API_KEY := None\<rparr>" "[typed_line ''exit'']"] a
  have k: "exit_code (fst (process ((sample_env direct_model)\<lparr>OPENAI_API_KEY := None\<rparr>) [typed_line ''exit''])) = 1"
    by blast
  from exit_codes [of "(sample_env direct_model)\<lparr>fileContent := \<lambda>path. None\<rparr>" "[typed_line ''exit'']"] b
  have l: "exit_code (fst (process ((sample_env direct_model)\<lparr>fileContent := \<lambda>path. None\<rparr>) [typed_line ''exit''])) = 1"
    by blast
  from exit_codes [of "sample_env direct_model" "[typed_line ''hello'', typed_line ''Exit'']"] c d f g i
  have m: "fst (process (sample_env direct_model) [typed_line ''hello'', typed_line ''Exit'']) = ExitCommand \<and>
    exit_code (fst (process (sample_env direct_model) [typed_line ''hello'', typed_line ''Exit''])) = 0"
    by (simp add: exit_code_def)
  from exit_codes [of "sample_env direct_model" "[typed_line ''hello'']"] c d f g j
  have n: "fst (process (sample_env direct_model) [typed_line ''hello'']) = EndOfInput \<and>
    exit_code (fst (process (sample_env direct_model) [typed_line ''hello''])) = 0"
    by (simp add: exit_code_def)
  from exit_codes [of "sample_env direct_model" "[TurnInput ''hello'' [''exit''] True]"] c d f g h
  have o: "fst (process (sample_env direct_model) [TurnInput ''hello'' [''exit''] True]) = Crashed UseAfterClose \<and>
    exit_code (fst (process (sample_env direct_model) [TurnInput ''hello'' [''exit''] True])) = 1"
    by (simp add: exit_code_def)
  from a b c d f g k l m n o show ?thesis by blast
qed

text \<open>
  Against C9 as stated: the input is piped in and ends while the first turn runs,
  with or without an exit line after the first line; the turn succeeds, the next prompt
  throws on the closed interface, and the exit code is 1, not 0.
\<close>

theorem exit_codes_counterexample:
  "fst (process (sample_env direct_model) [TurnInput ''hello'' [] True]) = Crashed UseAfterClose \<and>
   exit_code (fst (process (sample_env direct_model) [TurnInput ''hello'' [] True])) = 1 \<and>
   fst (process (sample_env direct_model) [TurnInput ''hello'' [''exit''] True]) = Crashed UseAfterClose \<and>
   exit_code (fst (process (sample_env direct_model) [TurnInput ''hello'' [''exit''] True])) = 1"
  by code_simp

end
